theory Spec2Isabelle
  imports Complex_Main "HOL-Library.Sublist" "HOL-Library.Word"
begin

section \<open>The MLX90614 driver (mlx90614.py)\<close>

text \<open>
  A shallow embedding of the driver. Python floats are modelled as \<^typ>\<open>real\<close>
  (no rounding error, no infinities), Python exceptions as the left summand of a sum
  type, the fields of \<^verbatim>\<open>self\<close> as a record, and every call into the host
  (bus, reactor, printer, logging, report callback) as an event appended to a trace.
\<close>

subsection \<open>Python values and exceptions\<close>

datatype exn =
    KeyError string
  | TypeError
  | IndexError
  | OverflowError
  | AttributeError string
  | TransportError string
  | ConfigError string

type_synonym byte = "8 word"

text \<open>The values that reach \<^verbatim>\<open>degrees_from_sample\<close>: numbers and byte arrays.\<close>

datatype pyval =
    PyInt int
  | PyFloat real
  | PyBytearray "byte list"

subsection \<open>Module constants\<close>

definition MLX90614_CHIP_ADDR :: nat where
  "MLX90614_CHIP_ADDR = 0x5A"

definition MLX90614_I2C_SPEED :: nat where
  "MLX90614_I2C_SPEED = 100000"

definition MLX90614_REGS :: "(string \<times> nat) list" where
  "MLX90614_REGS =
    [(''MLX90614_RAWIR1'', 0x04),
     (''MLX90614_RAWIR2'', 0x05),
     (''MLX90614_TA'', 0x06),
     (''MLX90614_TOBJ1'', 0x07),
     (''MLX90614_TOBJ2'', 0x08),
     (''MLX90614_TOMAX'', 0x20),
     (''MLX90614_TOMIN'', 0x21),
     (''MLX90614_PWMCTRL'', 0x22),
     (''MLX90614_TARANGE'', 0x23),
     (''MLX90614_EMISS'', 0x24),
     (''MLX90614_CONFIG'', 0x25),
     (''MLX90614_ADDR'', 0x2E),
     (''MLX90614_ID1'', 0x3C),
     (''MLX90614_ID2'', 0x3D),
     (''MLX90614_ID3'', 0x3E),
     (''MLX90614_ID4'', 0x3F)]"

definition MLX90614_REPORT_TIME :: real where
  "MLX90614_REPORT_TIME = 8 / 10"

definition MLX90614_MIN_REPORT_TIME :: real where
  "MLX90614_MIN_REPORT_TIME = 5 / 10"

text \<open>\<^verbatim>\<open>MLX90614_REGS[reg_name]\<close>: a missing key raises KeyError.\<close>

definition regs_getitem :: "string \<Rightarrow> exn + nat" where
  "regs_getitem reg_name =
     (case map_of MLX90614_REGS reg_name of
        None \<Rightarrow> Inl (KeyError reg_name)
      | Some a \<Rightarrow> Inr a)"

subsection \<open>Strings and number formatting\<close>

text \<open>
  \<^verbatim>\<open>str.split()\<close> with no argument: the words between runs of whitespace. A
  \<^typ>\<open>char\<close> stands for a code point below 256; of these, Python 3 takes as
  whitespace the tab, line feed, vertical tab, form feed, carriage return, the four
  separators 0x1C to 0x1F, the space, the next-line character 0x85 and the no-break
  space 0xA0.
\<close>

definition is_space :: "char \<Rightarrow> bool" where
  "is_space c =
     (c \<in> set [CHR 0x09, CHR 0x0A, CHR 0x0B, CHR 0x0C, CHR 0x0D,
                 CHR 0x1C, CHR 0x1D, CHR 0x1E, CHR 0x1F,
                 CHR '' '', CHR 0x85, CHR 0xA0])"

fun split_from :: "string \<Rightarrow> string \<Rightarrow> string list" where
  "split_from cur [] = (if cur = [] then [] else [cur])"
| "split_from cur (c # cs) =
     (if is_space c then (if cur = [] then split_from [] cs else cur # split_from [] cs)
      else split_from (cur @ [c]) cs)"

definition py_split :: "string \<Rightarrow> string list" where
  "py_split s = split_from [] s"

text \<open>\<^verbatim>\<open>xs[-1]\<close> and \<^verbatim>\<open>xs[0]\<close>: IndexError on an empty sequence.\<close>

definition getitem_last :: "'a list \<Rightarrow> exn + 'a" where
  "getitem_last xs = (case rev xs of [] \<Rightarrow> Inl IndexError | x # _ \<Rightarrow> Inr x)"

definition getitem_first :: "'a list \<Rightarrow> exn + 'a" where
  "getitem_first xs = (case xs of [] \<Rightarrow> Inl IndexError | x # _ \<Rightarrow> Inr x)"

definition digit_char :: "nat \<Rightarrow> char" where
  "digit_char d = ''0123456789abcdef'' ! d"

fun digits_of :: "nat \<Rightarrow> string" where
  "digits_of n =
     (if n < 10 then [digit_char n] else digits_of (n div 10) @ [digit_char (n mod 10)])"

declare digits_of.simps [simp del]

text \<open>\<^verbatim>\<open>'%#x' % b\<close> for a byte: \<^verbatim>\<open>0x\<close> and the lower-case hexadecimal digits.\<close>

definition fmt_hex :: "byte \<Rightarrow> string" where
  "fmt_hex b =
     (let n = unat b
      in ''0x'' @ (if n < 16 then [digit_char n]
                   else [digit_char (n div 16), digit_char (n mod 16)]))"

text \<open>
  Rounding to the nearest integer, ties to the even one: what \<^verbatim>\<open>round\<close> and
  \<^verbatim>\<open>%f\<close> do with a value that lies exactly between two candidates.
\<close>

definition round_half_even :: "real \<Rightarrow> int" where
  "round_half_even y =
     (let f = \<lfloor>y\<rfloor>; d = y - of_int f
      in if d < 1 / 2 then f
         else if d > 1 / 2 then f + 1
         else if even f then f else f + 1)"

definition py_round :: "real \<Rightarrow> nat \<Rightarrow> real" where
  "py_round x ndigits = of_int (round_half_even (x * 10 ^ ndigits)) / 10 ^ ndigits"

text \<open>\<^verbatim>\<open>'%0.1f' % x\<close> (and \<^verbatim>\<open>'%.01f' % x\<close>): one digit after the point.\<close>

definition fmt_f1 :: "real \<Rightarrow> string" where
  "fmt_f1 x =
     (let n = nat (round_half_even (\<bar>x\<bar> * 10))
      in (if x < 0 then ''-'' else []) @ digits_of (n div 10) @ ''.'' @ digits_of (n mod 10))"

subsection \<open>The host, as the driver sees it\<close>

datatype waketime = NOW | NEVER | At real

text \<open>Calls into the host, in the order the driver makes them.\<close>

datatype event =
    MCU_I2C_from_config nat nat
  | Register_timer
  | Add_object string
  | Register_event_handler string
  | Update_timer waketime
  | I2c_read "nat list" nat
  | Logging_info string
  | Logging_exception string
  | Invoke_shutdown string
  | Callback nat real real

text \<open>
  What the host answers during one run of a handler: the outcome of a bus read (an
  exception, or the bytes of \<^verbatim>\<open>params['response']\<close>), the reactor's monotonic
  clock, and the MCU's print-time estimate.
\<close>

record host =
  i2c_read :: "nat list \<Rightarrow> nat \<Rightarrow> exn + byte list"
  monotonic :: real
  estimated_print_time :: "real \<Rightarrow> real"

text \<open>What the configuration section holds: its name and the optional report time.\<close>

record config =
  get_name :: string
  MLX90614_report_time :: "real option"

text \<open>
  Modelled from the spec: \<^verbatim>\<open>config.getfloat(option, default, minval)\<close> belongs to
  the host's configuration loader, which is not among the sources. The spec gives the
  sampling interval a default and an enforced floor: a value below the floor fails
  configuration validation, an absent one takes the default.
\<close>

definition getfloat :: "real option \<Rightarrow> real \<Rightarrow> real \<Rightarrow> exn + real" where
  "getfloat v default_value minval =
     (case v of
        None \<Rightarrow> Inr default_value
      | Some r \<Rightarrow>
          if r < minval then Inl (ConfigError ''MLX90614_report_time'') else Inr r)"

subsection \<open>The sensor object\<close>

text \<open>
  The fields of \<^verbatim>\<open>self\<close>. \<^verbatim>\<open>_callback\<close> does not exist until
  \<^verbatim>\<open>setup_callback\<close> has run; a callback is named by a number. The trace holds
  the calls made into the host so far.
\<close>

record mlx90614 =
  name :: string
  report_time :: real
  temp :: real
  min_temp :: real
  max_temp :: real
  callback :: "nat option"
  trace :: "event list"

definition emit :: "event list \<Rightarrow> mlx90614 \<Rightarrow> mlx90614" where
  "emit evs self = self\<lparr>trace := trace self @ evs\<rparr>"

text \<open>\<^verbatim>\<open>__init__\<close>\<close>

definition init :: "config \<Rightarrow> exn + mlx90614" where
  "init cfg =
     (case getitem_last (py_split (get_name cfg)) of
        Inl e \<Rightarrow> Inl e
      | Inr nm \<Rightarrow>
          (case getfloat (MLX90614_report_time cfg)
                  MLX90614_REPORT_TIME MLX90614_MIN_REPORT_TIME of
             Inl e \<Rightarrow> Inl e
           | Inr rt \<Rightarrow>
               Inr \<lparr>name = nm, report_time = rt,
                    temp = 0, min_temp = 0, max_temp = 0,
                    callback = None,
                    trace = [MCU_I2C_from_config MLX90614_CHIP_ADDR MLX90614_I2C_SPEED,
                             Register_timer,
                             Add_object (''MLX90614 '' @ nm),
                             Register_event_handler ''klippy:connect'']\<rparr>))"

definition setup_minmax :: "mlx90614 \<Rightarrow> real \<Rightarrow> real \<Rightarrow> mlx90614" where
  "setup_minmax self mn mx = self\<lparr>min_temp := mn, max_temp := mx\<rparr>"

definition setup_callback :: "mlx90614 \<Rightarrow> nat \<Rightarrow> mlx90614" where
  "setup_callback self cb = self\<lparr>callback := Some cb\<rparr>"

definition get_report_time_delta :: "mlx90614 \<Rightarrow> real" where
  "get_report_time_delta self = report_time self"

subsection \<open>Conversion and register access\<close>

text \<open>
  \<^verbatim>\<open>(x * 0.02) - 273.15\<close>. Multiplying an int by a float first converts the int
  to a float, which raises OverflowError when it rounds beyond the largest double;
  multiplying a bytearray by a float raises TypeError.
\<close>

definition int_to_float :: "int \<Rightarrow> exn + real" where
  "int_to_float i =
     (if \<bar>i\<bar> \<ge> 2 ^ 1024 - 2 ^ 970 then Inl OverflowError else Inr (of_int i))"

definition degrees_from_sample :: "pyval \<Rightarrow> exn + real" where
  "degrees_from_sample x =
     (case x of
        PyInt i \<Rightarrow>
          (case int_to_float i of
             Inl e \<Rightarrow> Inl e
           | Inr f \<Rightarrow> Inr ((f * (2 / 100)) - 27315 / 100))
      | PyFloat f \<Rightarrow> Inr ((f * (2 / 100)) - 27315 / 100)
      | PyBytearray b \<Rightarrow> Inl TypeError)"

text \<open>
  \<^verbatim>\<open>read_register\<close>: look the register up, read \<^verbatim>\<open>read_len\<close> bytes from it,
  and return them as a bytearray.
\<close>

definition read_register ::
  "mlx90614 \<Rightarrow> host \<Rightarrow> string \<Rightarrow> nat \<Rightarrow> (exn + byte list) \<times> mlx90614" where
  "read_register self h reg_name read_len =
     (case regs_getitem reg_name of
        Inl e \<Rightarrow> (Inl e, self)
      | Inr reg \<Rightarrow> (i2c_read h [reg] read_len, emit [I2c_read [reg] read_len] self))"

subsection \<open>Connecting and sampling\<close>

text \<open>
  \<^verbatim>\<open>_init_mlx90614\<close>: the body of the \<^verbatim>\<open>try\<close>, then the bare
  \<^verbatim>\<open>except: pass\<close> around it.
\<close>

definition init_try :: "mlx90614 \<Rightarrow> host \<Rightarrow> (exn + unit) \<times> mlx90614" where
  "init_try self h =
     (case read_register self h ''MLX90614_ID1'' 1 of
        (Inl e, s) \<Rightarrow> (Inl e, s)
      | (Inr r, s) \<Rightarrow>
          (case getitem_first r of
             Inl e \<Rightarrow> (Inl e, s)
           | Inr prodid \<Rightarrow>
               (Inr (), emit [Logging_info (''mlx90614: Chip ID '' @ fmt_hex prodid)] s)))"

definition init_mlx90614 :: "mlx90614 \<Rightarrow> host \<Rightarrow> (exn + unit) \<times> mlx90614" where
  "init_mlx90614 self h =
     (case init_try self h of
        (Inl e, s) \<Rightarrow> (Inr (), s)
      | (Inr u, s) \<Rightarrow> (Inr (), s))"

definition handle_connect :: "mlx90614 \<Rightarrow> host \<Rightarrow> (exn + unit) \<times> mlx90614" where
  "handle_connect self h =
     (case init_mlx90614 self h of
        (Inl e, s) \<Rightarrow> (Inl e, s)
      | (Inr u, s) \<Rightarrow> (Inr (), emit [Update_timer NOW] s))"

text \<open>
  \<^verbatim>\<open>_sample_mlx90614\<close>, in three parts: the body of the \<^verbatim>\<open>try\<close> (lines
  75-76), the statements after it (lines 82-89), and the whole handler with its
  \<^verbatim>\<open>except Exception\<close> branch (every exception of \<^typ>\<open>exn\<close> is one).
\<close>

definition sample_try :: "mlx90614 \<Rightarrow> host \<Rightarrow> (exn + unit) \<times> mlx90614" where
  "sample_try self h =
     (case read_register self h ''MLX90614_TOBJ1'' 2 of
        (Inl e, s) \<Rightarrow> (Inl e, s)
      | (Inr sample, s) \<Rightarrow>
          (case degrees_from_sample (PyBytearray sample) of
             Inl e \<Rightarrow> (Inl e, s)
           | Inr t \<Rightarrow> (Inr (), s\<lparr>temp := t\<rparr>)))"

definition shutdown_message :: "mlx90614 \<Rightarrow> string" where
  "shutdown_message self =
     ''MLX90614 temperature '' @ fmt_f1 (temp self) @ '' outside range of ''
       @ fmt_f1 (min_temp self) @ '':'' @ fmt_f1 (max_temp self)"

definition sample_report :: "mlx90614 \<Rightarrow> host \<Rightarrow> (exn + waketime) \<times> mlx90614" where
  "sample_report self h =
     (let s = (if temp self < min_temp self \<or> temp self > max_temp self
               then emit [Invoke_shutdown (shutdown_message self)] self
               else self);
          measured_time = monotonic h
      in case callback s of
           None \<Rightarrow> (Inl (AttributeError ''_callback''), s)
         | Some cb \<Rightarrow>
             (Inr (At (measured_time + report_time s)),
              emit [Callback cb (estimated_print_time h measured_time) (temp s)] s))"

definition sample_mlx90614 ::
  "mlx90614 \<Rightarrow> host \<Rightarrow> real \<Rightarrow> (exn + waketime) \<times> mlx90614" where
  "sample_mlx90614 self h eventtime =
     (case sample_try self h of
        (Inl e, s) \<Rightarrow>
          (Inr NEVER,
           (emit [Logging_exception ''mlx90614: Error reading data''] s)\<lparr>temp := 0\<rparr>)
      | (Inr u, s) \<Rightarrow> sample_report s h)"

text \<open>\<^verbatim>\<open>get_status\<close>: the dictionary it returns, and \<^verbatim>\<open>self\<close> after the call.\<close>

definition get_status :: "mlx90614 \<Rightarrow> real \<Rightarrow> (string \<times> real) list \<times> mlx90614" where
  "get_status self eventtime = ([(''temperature'', py_round (temp self) 2)], self)"

text \<open>
  Modelled from the spec: the host scheduler is not among the sources. It calls a
  timer's handler when its wake time has come, takes the value the handler returns
  as the next wake time, and never calls a timer whose wake time is "never". Each
  element of the list is the host at one tick.
\<close>

fun reactor_run :: "host list \<Rightarrow> waketime \<Rightarrow> mlx90614 \<Rightarrow> mlx90614" where
  "reactor_run [] w self = self"
| "reactor_run (h # hs) w self =
     (if w = NEVER then self
      else (case sample_mlx90614 self h (monotonic h) of
              (Inl e, s) \<Rightarrow> s
            | (Inr w', s) \<Rightarrow> reactor_run hs w' s))"

text \<open>The messages of the shutdown requests in a trace, and its callback invocations.\<close>

fun shutdowns :: "event list \<Rightarrow> string list" where
  "shutdowns [] = []"
| "shutdowns (Invoke_shutdown m # evs) = m # shutdowns evs"
| "shutdowns (ev # evs) = shutdowns evs"

fun callbacks :: "event list \<Rightarrow> (nat \<times> real \<times> real) list" where
  "callbacks [] = []"
| "callbacks (Callback cb t v # evs) = (cb, t, v) # callbacks evs"
| "callbacks (ev # evs) = callbacks evs"

text \<open>Two buses for concrete runs: one that answers every read with the same bytes,
  one that fails every read.\<close>

definition bus_answering :: "byte list \<Rightarrow> nat list \<Rightarrow> nat \<Rightarrow> exn + byte list" where
  "bus_answering response regs read_len = Inr response"

definition bus_failing :: "exn \<Rightarrow> nat list \<Rightarrow> nat \<Rightarrow> exn + byte list" where
  "bus_failing e regs read_len = Inl e"

section \<open>Properties\<close>

subsection \<open>Auxiliary facts\<close>

lemma emit_emit: "emit ys (emit xs self) = emit (xs @ ys) self"
  by (simp add: emit_def)

lemma shutdowns_append: "shutdowns (xs @ ys) = shutdowns xs @ shutdowns ys"
  by (induction xs rule: shutdowns.induct) simp_all

lemma callbacks_append: "callbacks (xs @ ys) = callbacks xs @ callbacks ys"
  by (induction xs rule: callbacks.induct) simp_all

lemma regs_distinct: "distinct (map fst MLX90614_REGS)"
  by (simp add: MLX90614_REGS_def)

lemma raw_fits_double: "(65535::int) < 2 ^ 1024 - 2 ^ 970"
  by simp

lemma tobj1_addr: "regs_getitem ''MLX90614_TOBJ1'' = Inr 7"
  by (simp add: regs_getitem_def MLX90614_REGS_def)

lemma id1_addr: "regs_getitem ''MLX90614_ID1'' = Inr 0x3C"
  by (simp add: regs_getitem_def MLX90614_REGS_def)

lemma reactor_run_never: "reactor_run hs NEVER self = self"
  by (cases hs) simp_all

lemma sublist_mid: "sublist ys (xs @ ys @ zs)"
  by (auto simp add: sublist_def)

lemma fmt_305: "fmt_f1 305 = ''305.0''"
  by (simp add: fmt_f1_def round_half_even_def digits_of.simps digit_char_def)

lemma fmt_0: "fmt_f1 0 = ''0.0''"
  by (simp add: fmt_f1_def round_half_even_def digits_of.simps digit_char_def)

lemma fmt_300: "fmt_f1 300 = ''300.0''"
  by (simp add: fmt_f1_def round_half_even_def digits_of.simps digit_char_def)

lemma getitem_last_nonempty: "xs \<noteq> [] \<Longrightarrow> getitem_last xs = Inr (last xs)"
  by (cases xs rule: rev_cases) (simp_all add: getitem_last_def)

lemma split_chamber:
  "py_split ''temperature_sensor chamber'' = [''temperature_sensor'', ''chamber'']"
  by (simp add: py_split_def is_space_def)

lemma round_half_even_close: "\<bar>of_int (round_half_even y) - y\<bar> \<le> 1 / 2"
proof -
  have "of_int \<lfloor>y\<rfloor> \<le> y" and "y < of_int \<lfloor>y\<rfloor> + 1"
    by linarith+
  then show ?thesis
    by (auto simp add: round_half_even_def Let_def)
qed

lemma py_round2_close: "\<bar>py_round x 2 - x\<bar> \<le> 1 / 200"
proof -
  define B where "B = \<bar>real_of_int (round_half_even (x * 100)) - x * 100\<bar>"
  have h: "B \<le> 1 / 2"
    unfolding B_def by (rule round_half_even_close)
  have "py_round x 2 - x = (real_of_int (round_half_even (x * 100)) - x * 100) / 100"
    by (simp add: py_round_def field_simps)
  then have "\<bar>py_round x 2 - x\<bar> = B / 100"
    unfolding B_def by (simp only: abs_divide)
  with h show ?thesis
    by simp
qed

lemma fmt_24_5: "fmt_f1 (49 / 2) = ''24.5''"
  by (simp add: fmt_f1_def round_half_even_def digits_of.simps digit_char_def)

text \<open>The body of the \<^verbatim>\<open>try\<close> in the sampling handler raises whatever the bus
  answers: a failed read raises, and so does the conversion of a read that succeeded.\<close>

lemma sample_try_fails:
  "\<exists>e. sample_try self h = (Inl e, emit [I2c_read [7] 2] self)"
  by (simp add: sample_try_def read_register_def tobj1_addr degrees_from_sample_def
      split: sum.split)

lemma sample_halts:
  "sample_mlx90614 self h et =
     (Inr NEVER,
      self\<lparr>temp := 0,
           trace := trace self @ [I2c_read [7] 2,
                      Logging_exception ''mlx90614: Error reading data'']\<rparr>)"
proof -
  obtain e where "sample_try self h = (Inl e, emit [I2c_read [7] 2] self)"
    using sample_try_fails by blast
  then show ?thesis
    by (simp add: sample_mlx90614_def emit_def)
qed

subsection \<open>Temperature conversion\<close>

text \<open>
  C4. For every raw unsigned sample \<open>x\<close> between 0 and 65535, given as an int or as
  a float, \<^verbatim>\<open>degrees_from_sample\<close> does not raise and returns
  \<open>x * 0.02 - 273.15\<close>. The function reads and writes nothing but its argument:
  it takes no state and returns none. (Floats are reals here, so the equality is exact.)
\<close>

theorem degrees_from_sample_raw:
  assumes "0 \<le> x" and "x \<le> 65535"
  shows "degrees_from_sample (PyInt x) = Inr (of_int x * 0.02 - 273.15)
       \<and> degrees_from_sample (PyFloat (of_int x)) = Inr (of_int x * 0.02 - 273.15)"
proof -
  have "\<bar>x\<bar> < 2 ^ 1024 - 2 ^ 970"
    using assms raw_fits_double by linarith
  then show ?thesis
    by (simp add: degrees_from_sample_def int_to_float_def)
qed

theorem degrees_from_sample_raw_witness:
  "degrees_from_sample (PyInt 14908) = Inr (2501 / 100)
   \<and> degrees_from_sample (PyFloat 14908) = Inr (2501 / 100)"
  using degrees_from_sample_raw [of 14908] by simp

subsection \<open>The sampling handler\<close>

text \<open>
  C9. The sampling handler passes the bytearray returned by \<^verbatim>\<open>read_register\<close>
  to \<^verbatim>\<open>degrees_from_sample\<close>, which raises TypeError on every bytearray. So the
  body of the \<^verbatim>\<open>try\<close> raises on every invocation, whatever the bus answers:
  the handler sets the temperature to 0.0, logs the exception and returns "never",
  and it issues neither a shutdown request nor a callback.
\<close>

theorem sample_always_halts:
  "degrees_from_sample (PyBytearray b) = Inl TypeError
   \<and> (\<exists>e. fst (sample_try self h) = Inl e)
   \<and> sample_mlx90614 self h et =
       (Inr NEVER,
        self\<lparr>temp := 0,
             trace := trace self @ [I2c_read [7] 2,
                        Logging_exception ''mlx90614: Error reading data'']\<rparr>)
   \<and> shutdowns (trace (snd (sample_mlx90614 self h et))) = shutdowns (trace self)
   \<and> callbacks (trace (snd (sample_mlx90614 self h et))) = callbacks (trace self)"
proof -
  have "\<exists>e. fst (sample_try self h) = Inl e"
    using sample_try_fails [of self h] by auto
  then show ?thesis
    by (simp add: sample_halts degrees_from_sample_def shutdowns_append callbacks_append)
qed

text \<open>
  C2. When the bus read of the sampling handler raises, or the conversion of what it
  read raises, the handler stores the temperature 0.0, logs the exception and returns
  "never". A scheduler that is handed "never" does not call the handler again, whatever
  the later ticks hold: no further bus read, and no further write to the temperature.
\<close>

theorem sample_error_halts:
  assumes "i2c_read h [7] 2 = Inl e
         \<or> (\<exists>b. i2c_read h [7] 2 = Inr b \<and> degrees_from_sample (PyBytearray b) = Inl e)"
  shows "sample_try self h = (Inl e, emit [I2c_read [7] 2] self)
       \<and> sample_mlx90614 self h et =
           (Inr NEVER,
            self\<lparr>temp := 0,
                 trace := trace self @ [I2c_read [7] 2,
                            Logging_exception ''mlx90614: Error reading data'']\<rparr>)
       \<and> temp (snd (sample_mlx90614 self h et)) = 0
       \<and> reactor_run hs NEVER (snd (sample_mlx90614 self h et))
           = snd (sample_mlx90614 self h et)
       \<and> reactor_run (h # hs) NOW self = snd (sample_mlx90614 self h (monotonic h))"
proof -
  have "sample_try self h = (Inl e, emit [I2c_read [7] 2] self)"
    using assms
    by (auto simp add: sample_try_def read_register_def tobj1_addr)
  then show ?thesis
    by (simp add: sample_halts reactor_run_never)
qed

theorem sample_error_halts_witness:
  "sample_mlx90614
     \<lparr>name = ''chamber'', report_time = 8 / 10, temp = 25, min_temp = 0, max_temp = 300,
      callback = Some 0, trace = []\<rparr>
     \<lparr>i2c_read = bus_failing (TransportError ''NAK''), monotonic = 100,
      estimated_print_time = id\<rparr> 100
   = (Inr NEVER,
      \<lparr>name = ''chamber'', report_time = 8 / 10, temp = 0, min_temp = 0, max_temp = 300,
       callback = Some 0,
       trace = [I2c_read [7] 2, Logging_exception ''mlx90614: Error reading data'']\<rparr>)"
  using sample_error_halts [of
     "\<lparr>i2c_read = bus_failing (TransportError ''NAK''), monotonic = 100,
       estimated_print_time = id\<rparr>" "TransportError ''NAK''"
     "\<lparr>name = ''chamber'', report_time = 8 / 10, temp = 25, min_temp = 0, max_temp = 300,
      callback = Some 0, trace = []\<rparr>" 100 "[]"]
  by (simp add: bus_failing_def)



subsection \<open>The safety check\<close>

text \<open>
  C3, as the claim states it, fails on the instance name: with the instance named
  \<^verbatim>\<open>chamber\<close>, bounds 0 and 300 and the temperature 305, the statements after
  the \<^verbatim>\<open>try\<close> request a shutdown whose message does not contain the name.
\<close>

theorem shutdown_message_lacks_name:
  "sample_report
     \<lparr>name = ''chamber'', report_time = 8 / 10, temp = 305, min_temp = 0, max_temp = 300,
      callback = Some 0, trace = []\<rparr>
     \<lparr>i2c_read = bus_answering [0x3B, 0x3A], monotonic = 100, estimated_print_time = id\<rparr>
   = (Inr (At (1008 / 10)),
      \<lparr>name = ''chamber'', report_time = 8 / 10, temp = 305, min_temp = 0, max_temp = 300,
       callback = Some 0,
       trace = [Invoke_shutdown ''MLX90614 temperature 305.0 outside range of 0.0:300.0'',
                Callback 0 100 305]\<rparr>)
   \<and> \<not> sublist ''chamber'' ''MLX90614 temperature 305.0 outside range of 0.0:300.0''"
proof -
  have "\<not> sublist ''chamber'' ''MLX90614 temperature 305.0 outside range of 0.0:300.0''"
    by code_simp
  then show ?thesis
    by (simp add: sample_report_def emit_def shutdown_message_def fmt_305 fmt_0 fmt_300)
qed

text \<open>
  C3, amended. For every temperature \<open>t\<close> that reaches the statements after the
  \<^verbatim>\<open>try\<close>, with bounds \<open>min_temp\<close> and \<open>max_temp\<close>: a shutdown is requested
  if and only if \<open>t < min_temp\<close> or \<open>t > max_temp\<close>, and then exactly once; its
  message contains the sensor type \<^verbatim>\<open>MLX90614\<close> (not the instance name), the
  measured value and both bounds, each with one decimal; and with a callback
  registered the cycle goes on: the callback is invoked with \<open>t\<close> and the handler
  returns the sample's time plus the report interval.
\<close>

theorem safety_check_shutdown:
  "shutdowns (trace (snd (sample_report self h)))
     = shutdowns (trace self) @
       (if temp self < min_temp self \<or> temp self > max_temp self
        then [shutdown_message self] else [])
   \<and> sublist ''MLX90614'' (shutdown_message self)
   \<and> sublist (fmt_f1 (temp self)) (shutdown_message self)
   \<and> sublist (fmt_f1 (min_temp self)) (shutdown_message self)
   \<and> sublist (fmt_f1 (max_temp self)) (shutdown_message self)
   \<and> (callback self = Some cb \<longrightarrow>
        sample_report self h =
          (Inr (At (monotonic h + report_time self)),
           emit ((if temp self < min_temp self \<or> temp self > max_temp self
                  then [Invoke_shutdown (shutdown_message self)] else [])
                 @ [Callback cb (estimated_print_time h (monotonic h)) (temp self)]) self))"
proof -
  have a: "shutdowns (trace (snd (sample_report self h)))
     = shutdowns (trace self) @
       (if temp self < min_temp self \<or> temp self > max_temp self
        then [shutdown_message self] else [])"
    by (cases "callback self")
       (simp_all add: sample_report_def emit_def shutdowns_append Let_def)
  have b: "sublist ''MLX90614'' (shutdown_message self)"
    unfolding shutdown_message_def
    using sublist_mid [of "''MLX90614''" "[]"] by simp
  have c: "sublist (fmt_f1 (temp self)) (shutdown_message self)"
    unfolding shutdown_message_def
    using sublist_mid [of "fmt_f1 (temp self)" "''MLX90614 temperature ''"] by simp
  have d: "sublist (fmt_f1 (min_temp self)) (shutdown_message self)"
    unfolding shutdown_message_def
    using sublist_mid [of "fmt_f1 (min_temp self)"
        "''MLX90614 temperature '' @ fmt_f1 (temp self) @ '' outside range of ''"]
    by simp
  have e: "sublist (fmt_f1 (max_temp self)) (shutdown_message self)"
    unfolding shutdown_message_def
    using sublist_mid [of "fmt_f1 (max_temp self)"
        "''MLX90614 temperature '' @ fmt_f1 (temp self) @ '' outside range of ''
           @ fmt_f1 (min_temp self) @ '':''" "[]"]
    by simp
  have f: "callback self = Some cb \<longrightarrow>
        sample_report self h =
          (Inr (At (monotonic h + report_time self)),
           emit ((if temp self < min_temp self \<or> temp self > max_temp self
                  then [Invoke_shutdown (shutdown_message self)] else [])
                 @ [Callback cb (estimated_print_time h (monotonic h)) (temp self)]) self)"
    by (simp add: sample_report_def emit_def Let_def)
  from a b c d e f show ?thesis by blast
qed

theorem safety_check_shutdown_witness:
  "sample_report
     \<lparr>name = ''chamber'', report_time = 8 / 10, temp = 305, min_temp = 0, max_temp = 300,
      callback = Some 0, trace = []\<rparr>
     \<lparr>i2c_read = bus_answering [0x3B, 0x3A], monotonic = 100, estimated_print_time = id\<rparr>
   = (Inr (At (1008 / 10)),
      \<lparr>name = ''chamber'', report_time = 8 / 10, temp = 305, min_temp = 0, max_temp = 300,
       callback = Some 0,
       trace = [Invoke_shutdown ''MLX90614 temperature 305.0 outside range of 0.0:300.0'',
                Callback 0 100 305]\<rparr>)"
  using safety_check_shutdown [of
     "\<lparr>name = ''chamber'', report_time = 8 / 10, temp = 305, min_temp = 0, max_temp = 300,
      callback = Some 0, trace = []\<rparr>"
     "\<lparr>i2c_read = bus_answering [0x3B, 0x3A], monotonic = 100, estimated_print_time = id\<rparr>" 0]
  by (simp add: emit_def shutdown_message_def fmt_305 fmt_0 fmt_300)

text \<open>
  C10. After construction the temperature and both bounds are 0.0. So in any state
  whose bounds are still those of construction, a temperature other than 0.0 that
  reaches the safety check is out of range, and a shutdown is requested for it.
\<close>

theorem unset_bounds_shutdown:
  assumes "init cfg = Inr self"
    and "min_temp s = min_temp self" and "max_temp s = max_temp self"
    and "temp s \<noteq> 0"
  shows "temp self = 0 \<and> min_temp self = 0 \<and> max_temp self = 0
       \<and> (temp s < min_temp s \<or> temp s > max_temp s)
       \<and> shutdowns (trace (snd (sample_report s h)))
           = shutdowns (trace s) @ [shutdown_message s]"
proof -
  have z: "temp self = 0 \<and> min_temp self = 0 \<and> max_temp self = 0"
    using assms(1) by (auto simp add: init_def split: sum.splits)
  with assms have v: "temp s < min_temp s \<or> temp s > max_temp s"
    by auto
  then have "shutdowns (trace (snd (sample_report s h)))
           = shutdowns (trace s) @ [shutdown_message s]"
    by (cases "callback s")
       (simp_all add: sample_report_def emit_def shutdowns_append Let_def)
  with z v show ?thesis by blast
qed

theorem unset_bounds_shutdown_witness:
  "init \<lparr>get_name = ''temperature_sensor chamber'', MLX90614_report_time = None\<rparr>
     = Inr \<lparr>name = ''chamber'', report_time = 8 / 10, temp = 0, min_temp = 0, max_temp = 0,
            callback = None,
            trace = [MCU_I2C_from_config 90 100000, Register_timer,
                     Add_object ''MLX90614 chamber'',
                     Register_event_handler ''klippy:connect'']\<rparr>
   \<and> shutdowns (trace (snd (sample_report
        \<lparr>name = ''chamber'', report_time = 8 / 10, temp = 49 / 2, min_temp = 0,
         max_temp = 0, callback = Some 0, trace = [I2c_read [7] 2]\<rparr>
        \<lparr>i2c_read = bus_answering [0x3B, 0x3A], monotonic = 100,
         estimated_print_time = id\<rparr>)))
     = [''MLX90614 temperature 24.5 outside range of 0.0:0.0'']"
proof -
  have i: "init \<lparr>get_name = ''temperature_sensor chamber'', MLX90614_report_time = None\<rparr>
     = Inr \<lparr>name = ''chamber'', report_time = 8 / 10, temp = 0, min_temp = 0, max_temp = 0,
            callback = None,
            trace = [MCU_I2C_from_config 90 100000, Register_timer,
                     Add_object ''MLX90614 chamber'',
                     Register_event_handler ''klippy:connect'']\<rparr>"
    by (simp add: init_def split_chamber getitem_last_def getfloat_def
        MLX90614_REPORT_TIME_def MLX90614_CHIP_ADDR_def MLX90614_I2C_SPEED_def)
  show ?thesis
    using i unset_bounds_shutdown [OF i, of
        "\<lparr>name = ''chamber'', report_time = 8 / 10, temp = 49 / 2, min_temp = 0,
         max_temp = 0, callback = Some 0, trace = [I2c_read [7] 2]\<rparr>"
        "\<lparr>i2c_read = bus_answering [0x3B, 0x3A], monotonic = 100,
         estimated_print_time = id\<rparr>"]
    by (simp add: shutdown_message_def fmt_24_5 fmt_0)
qed

subsection \<open>Configuration\<close>

text \<open>
  C5. A configured report time below 0.5 makes construction fail. A configured report
  time \<open>r\<close> of at least 0.5 is accepted (for a section name that has a word in it):
  \<open>r\<close> is then the stored report time, the value of
  \<^verbatim>\<open>get_report_time_delta\<close>, and what is added to the sample's time when the
  handler reschedules itself. With no value configured the report time is 0.8.
\<close>

theorem report_time_validation:
  "(MLX90614_report_time cfg = Some r \<and> r < 0.5 \<longrightarrow> (\<exists>e. init cfg = Inl e))
   \<and> (MLX90614_report_time cfg = Some r \<and> 0.5 \<le> r \<and> py_split (get_name cfg) \<noteq> [] \<longrightarrow>
        (\<exists>self. init cfg = Inr self \<and> report_time self = r
           \<and> get_report_time_delta self = r
           \<and> fst (sample_report (setup_callback self cb) h) = Inr (At (monotonic h + r))))
   \<and> (MLX90614_report_time cfg = None \<and> py_split (get_name cfg) \<noteq> [] \<longrightarrow>
        (\<exists>self. init cfg = Inr self \<and> report_time self = 0.8
           \<and> get_report_time_delta self = 0.8))"
proof -
  have a: "MLX90614_report_time cfg = Some r \<and> r < 0.5 \<longrightarrow> (\<exists>e. init cfg = Inl e)"
    by (auto simp add: init_def getfloat_def MLX90614_MIN_REPORT_TIME_def
        split: sum.splits)
  have b: "MLX90614_report_time cfg = Some r \<and> 0.5 \<le> r \<and> py_split (get_name cfg) \<noteq> [] \<longrightarrow>
        (\<exists>self. init cfg = Inr self \<and> report_time self = r
           \<and> get_report_time_delta self = r
           \<and> fst (sample_report (setup_callback self cb) h) = Inr (At (monotonic h + r)))"
    by (auto simp add: init_def getfloat_def MLX90614_MIN_REPORT_TIME_def
        getitem_last_nonempty get_report_time_delta_def sample_report_def
        setup_callback_def emit_def Let_def)
  have c: "MLX90614_report_time cfg = None \<and> py_split (get_name cfg) \<noteq> [] \<longrightarrow>
        (\<exists>self. init cfg = Inr self \<and> report_time self = 0.8
           \<and> get_report_time_delta self = 0.8)"
    by (auto simp add: init_def getfloat_def MLX90614_REPORT_TIME_def
        getitem_last_nonempty get_report_time_delta_def)
  from a b c show ?thesis by blast
qed

theorem report_time_validation_witness:
  "init \<lparr>get_name = ''temperature_sensor chamber'', MLX90614_report_time = Some (3 / 10)\<rparr>
     = Inl (ConfigError ''MLX90614_report_time'')
   \<and> init \<lparr>get_name = ''temperature_sensor chamber'', MLX90614_report_time = Some (1 / 2)\<rparr>
     = Inr \<lparr>name = ''chamber'', report_time = 1 / 2, temp = 0, min_temp = 0, max_temp = 0,
            callback = None,
            trace = [MCU_I2C_from_config 90 100000, Register_timer,
                     Add_object ''MLX90614 chamber'',
                     Register_event_handler ''klippy:connect'']\<rparr>
   \<and> init \<lparr>get_name = ''temperature_sensor chamber'', MLX90614_report_time = None\<rparr>
     = Inr \<lparr>name = ''chamber'', report_time = 8 / 10, temp = 0, min_temp = 0, max_temp = 0,
            callback = None,
            trace = [MCU_I2C_from_config 90 100000, Register_timer,
                     Add_object ''MLX90614 chamber'',
                     Register_event_handler ''klippy:connect'']\<rparr>"
  using report_time_validation [of
      "\<lparr>get_name = ''temperature_sensor chamber'', MLX90614_report_time = Some (3 / 10)\<rparr>"
      "3 / 10"]
    report_time_validation [of
      "\<lparr>get_name = ''temperature_sensor chamber'', MLX90614_report_time = Some (1 / 2)\<rparr>"
      "1 / 2"]
    report_time_validation [of
      "\<lparr>get_name = ''temperature_sensor chamber'', MLX90614_report_time = None\<rparr>"]
  by (simp add: init_def split_chamber getitem_last_def getfloat_def
      MLX90614_REPORT_TIME_def MLX90614_MIN_REPORT_TIME_def
      MLX90614_CHIP_ADDR_def MLX90614_I2C_SPEED_def)

subsection \<open>Connecting\<close>

text \<open>
  C6. Whatever the identity probe meets on the connect event (a failed bus read, an
  empty answer, or a chip ID that is logged), \<^verbatim>\<open>handle_connect\<close> returns
  normally and its last call into the host sets the sampling timer to "now": a failed
  probe is swallowed and the first sampling run is scheduled all the same.
\<close>

theorem handle_connect_schedules:
  "handle_connect self h =
     (Inr (),
      emit (I2c_read [0x3C] 1 #
            (case i2c_read h [0x3C] 1 of
               Inl e \<Rightarrow> []
             | Inr r \<Rightarrow>
                 (case r of
                    [] \<Rightarrow> []
                  | prodid # rest \<Rightarrow>
                      [Logging_info (''mlx90614: Chip ID '' @ fmt_hex prodid)]))
            @ [Update_timer NOW]) self)
   \<and> (i2c_read h [0x3C] 1 = Inl e \<longrightarrow>
        handle_connect self h =
          (Inr (), emit [I2c_read [0x3C] 1, Update_timer NOW] self))"
  by (simp add: handle_connect_def init_mlx90614_def init_try_def read_register_def
      id1_addr getitem_first_def emit_def split: sum.split list.split)

theorem handle_connect_schedules_witness:
  "handle_connect
     \<lparr>name = ''chamber'', report_time = 8 / 10, temp = 0, min_temp = 0, max_temp = 0,
      callback = Some 0, trace = []\<rparr>
     \<lparr>i2c_read = bus_failing (TransportError ''NAK''), monotonic = 100,
      estimated_print_time = id\<rparr>
   = (Inr (),
      \<lparr>name = ''chamber'', report_time = 8 / 10, temp = 0, min_temp = 0, max_temp = 0,
       callback = Some 0, trace = [I2c_read [0x3C] 1, Update_timer NOW]\<rparr>)"
  using handle_connect_schedules [of
     "\<lparr>name = ''chamber'', report_time = 8 / 10, temp = 0, min_temp = 0, max_temp = 0,
      callback = Some 0, trace = []\<rparr>"
     "\<lparr>i2c_read = bus_failing (TransportError ''NAK''), monotonic = 100,
      estimated_print_time = id\<rparr>" "TransportError ''NAK''"]
  by (simp add: bus_failing_def emit_def)

subsection \<open>Register lookup\<close>

text \<open>
  C7. A name of the register table is looked up to the address the table gives it, and
  \<^verbatim>\<open>read_register\<close> then reads from that address; a name that is not in the
  table raises KeyError before any bus access. The object temperature of channel 1 is
  at 0x07, the ambient temperature at 0x06, the identity registers at 0x3C to 0x3F;
  the device address is 0x5A and the bus speed 100000, and construction hands both to
  the bus. The table is a constant: no operation of the driver takes or returns it.
\<close>

theorem register_lookup:
  "((n, a) \<in> set MLX90614_REGS \<longrightarrow>
      regs_getitem n = Inr a
      \<and> read_register self h n len = (i2c_read h [a] len, emit [I2c_read [a] len] self))
   \<and> (n \<notin> fst ` set MLX90614_REGS \<longrightarrow>
      regs_getitem n = Inl (KeyError n)
      \<and> read_register self h n len = (Inl (KeyError n), self))
   \<and> regs_getitem ''MLX90614_TOBJ1'' = Inr 0x07
   \<and> regs_getitem ''MLX90614_TA'' = Inr 0x06
   \<and> regs_getitem ''MLX90614_ID1'' = Inr 0x3C
   \<and> regs_getitem ''MLX90614_ID2'' = Inr 0x3D
   \<and> regs_getitem ''MLX90614_ID3'' = Inr 0x3E
   \<and> regs_getitem ''MLX90614_ID4'' = Inr 0x3F
   \<and> MLX90614_CHIP_ADDR = 0x5A
   \<and> MLX90614_I2C_SPEED = 100000
   \<and> (init cfg = Inr s \<longrightarrow> hd (trace s) = MCU_I2C_from_config 0x5A 100000)"
proof -
  have a: "(n, a) \<in> set MLX90614_REGS \<longrightarrow> map_of MLX90614_REGS n = Some a"
    using map_of_eq_Some_iff [OF regs_distinct] by simp
  have b: "n \<notin> fst ` set MLX90614_REGS \<longrightarrow> map_of MLX90614_REGS n = None"
    by (simp add: map_of_eq_None_iff)
  have c: "regs_getitem ''MLX90614_TA'' = Inr 0x06"
    "regs_getitem ''MLX90614_ID2'' = Inr 0x3D"
    "regs_getitem ''MLX90614_ID3'' = Inr 0x3E"
    "regs_getitem ''MLX90614_ID4'' = Inr 0x3F"
    by (simp_all add: regs_getitem_def MLX90614_REGS_def)
  have d: "init cfg = Inr s \<longrightarrow> hd (trace s) = MCU_I2C_from_config 0x5A 100000"
    by (auto simp add: init_def MLX90614_CHIP_ADDR_def MLX90614_I2C_SPEED_def
        split: sum.splits)
  from a b have e: "((n, a) \<in> set MLX90614_REGS \<longrightarrow>
      regs_getitem n = Inr a
      \<and> read_register self h n len = (i2c_read h [a] len, emit [I2c_read [a] len] self))
   \<and> (n \<notin> fst ` set MLX90614_REGS \<longrightarrow>
      regs_getitem n = Inl (KeyError n)
      \<and> read_register self h n len = (Inl (KeyError n), self))"
    by (simp add: regs_getitem_def read_register_def)
  from c d e show ?thesis
    by (simp add: tobj1_addr id1_addr MLX90614_CHIP_ADDR_def MLX90614_I2C_SPEED_def)
qed

theorem register_lookup_witness:
  "read_register
     \<lparr>name = ''chamber'', report_time = 8 / 10, temp = 0, min_temp = 0, max_temp = 0,
      callback = None, trace = []\<rparr>
     \<lparr>i2c_read = bus_answering [0x3B, 0x3A], monotonic = 100, estimated_print_time = id\<rparr>
     ''MLX90614_TOBJ2'' 2
   = (Inr [0x3B, 0x3A],
      \<lparr>name = ''chamber'', report_time = 8 / 10, temp = 0, min_temp = 0, max_temp = 0,
       callback = None, trace = [I2c_read [8] 2]\<rparr>)
   \<and> read_register
     \<lparr>name = ''chamber'', report_time = 8 / 10, temp = 0, min_temp = 0, max_temp = 0,
      callback = None, trace = []\<rparr>
     \<lparr>i2c_read = bus_answering [0x3B, 0x3A], monotonic = 100, estimated_print_time = id\<rparr>
     ''MLX90614_TOBJ3'' 2
   = (Inl (KeyError ''MLX90614_TOBJ3''),
      \<lparr>name = ''chamber'', report_time = 8 / 10, temp = 0, min_temp = 0, max_temp = 0,
       callback = None, trace = []\<rparr>)
   \<and> hd (trace \<lparr>name = ''chamber'', report_time = 8 / 10, temp = 0, min_temp = 0,
        max_temp = 0, callback = None,
        trace = [MCU_I2C_from_config 90 100000, Register_timer,
                 Add_object ''MLX90614 chamber'',
                 Register_event_handler ''klippy:connect'']\<rparr>)
     = MCU_I2C_from_config 0x5A 100000"
  using register_lookup [of "''MLX90614_TOBJ2''" 8
     "\<lparr>name = ''chamber'', report_time = 8 / 10, temp = 0, min_temp = 0, max_temp = 0,
      callback = None, trace = []\<rparr>"
     "\<lparr>i2c_read = bus_answering [0x3B, 0x3A], monotonic = 100, estimated_print_time = id\<rparr>"
     2
     "\<lparr>get_name = ''temperature_sensor chamber'', MLX90614_report_time = None\<rparr>"
     "\<lparr>name = ''chamber'', report_time = 8 / 10, temp = 0, min_temp = 0,
        max_temp = 0, callback = None,
        trace = [MCU_I2C_from_config 90 100000, Register_timer,
                 Add_object ''MLX90614 chamber'',
                 Register_event_handler ''klippy:connect'']\<rparr>"]
    register_lookup [of "''MLX90614_TOBJ3''" 8
     "\<lparr>name = ''chamber'', report_time = 8 / 10, temp = 0, min_temp = 0, max_temp = 0,
      callback = None, trace = []\<rparr>"
     "\<lparr>i2c_read = bus_answering [0x3B, 0x3A], monotonic = 100, estimated_print_time = id\<rparr>"
     2
     "\<lparr>get_name = ''temperature_sensor chamber'', MLX90614_report_time = None\<rparr>"
     "\<lparr>name = ''chamber'', report_time = 8 / 10, temp = 0, min_temp = 0,
        max_temp = 0, callback = None,
        trace = [MCU_I2C_from_config 90 100000, Register_timer,
                 Add_object ''MLX90614 chamber'',
                 Register_event_handler ''klippy:connect'']\<rparr>"]
  by (simp add: MLX90614_REGS_def bus_answering_def emit_def)

subsection \<open>Status\<close>

text \<open>
  C8. \<^verbatim>\<open>get_status\<close> returns the stored temperature rounded to two decimals
  (a multiple of 0.01 within 0.005 of it), leaves \<^verbatim>\<open>self\<close> as it was, and does
  not depend on its time argument, so repeated calls return the same value. After a run
  of the sampling handler it reports what that run last stored.
\<close>

theorem get_status_snapshot:
  "get_status self t = ([(''temperature'', py_round (temp self) 2)], self)
   \<and> snd (get_status self t) = self
   \<and> get_status self t = get_status self t'
   \<and> fst (get_status (snd (get_status self t)) t') = fst (get_status self t)
   \<and> \<bar>py_round (temp self) 2 - temp self\<bar> \<le> 1 / 200
   \<and> (\<exists>k::int. py_round (temp self) 2 = of_int k / 100)
   \<and> fst (get_status (snd (sample_mlx90614 self h et)) t) = [(''temperature'', 0)]
   \<and> fst (get_status (snd (sample_report (self\<lparr>temp := v\<rparr>) h)) t)
       = [(''temperature'', py_round v 2)]"
proof -
  have a: "\<exists>k::int. py_round (temp self) 2 = of_int k / 100"
    by (auto simp add: py_round_def)
  have b: "temp (snd (sample_report (self\<lparr>temp := v\<rparr>) h)) = v"
    by (simp add: sample_report_def emit_def Let_def split: option.split)
  have c: "py_round 0 2 = 0"
    by (simp add: py_round_def round_half_even_def)
  have d: "\<bar>py_round (temp self) 2 - temp self\<bar> \<le> 1 / 200"
    by (rule py_round2_close)
  from a b c d show ?thesis
    by (simp add: get_status_def sample_halts)
qed

end
